theory Spec2Isabelle
  imports Complex_Main
begin

section \<open>The host scene and the environment of the two scripts\<close>

text \<open>
  Both scripts are straight-line sequences of calls into the host application (\<open>bpy\<close>)
  and the operating system (\<open>os\<close>). The host is not part of the repository, so the scene
  is modelled symbolically: an object records which host operators have been applied to
  it, not what the operators compute. Python references to scene objects are indices
  into \<open>objects\<close>; a deleted object leaves \<open>None\<close> behind.
\<close>

type_synonym ref = nat

datatype mode = OBJECT | EDIT | WEIGHT_PAINT

datatype geom_op =
    ScaleApplied
  | ModifierApplied string real
  | SmartProject
  | Unwrap
  | Resize real real real

record modifier =
  mod_name :: string
  mod_type :: string
  ratio :: real

record object =
  name :: string
  otype :: string
  data_name :: string
  bones :: "string list"
  nverts :: nat
  geometry :: "geom_op list"
  modifiers :: "modifier list"
  materials :: "nat list"
  vertex_groups :: "(string \<times> (nat \<times> real) list) list"
  parent :: "ref option"
  parent_type :: string
  armature_deform :: "ref option"

record material =
  mat_name :: string
  use_nodes :: bool
  image_nodes :: "string option list"
  base_color_links :: "nat list"

datatype io_event =
    GltfImport string "ref list"
  | ObjExport string "ref list" "(string \<times> string) list"
  | FbxExport string "ref list" "(string \<times> string) list"

text \<open>
  The state holds the live scene (\<open>objects\<close> to \<open>mode\<close>), the file system as the scripts
  observe it, the files read and written by the format codecs, the console, and the
  behaviour of the host that the scripts do not determine: which calls fail
  (\<open>fails\<close>, asked at every host call, counted by \<open>tick\<close>), how the host makes a name
  unique, how many vertices a decimation leaves, and what a glTF file contains.
\<close>

record state =
  objects :: "object option list"
  data_materials :: "material list"
  data_images :: "string list"
  filepath :: string
  active :: "ref option"
  selected :: "ref set"
  mode :: mode
  fs_exists :: "string \<Rightarrow> bool"
  fs_isdir :: "string \<Rightarrow> bool"
  fs_listdir :: "string \<Rightarrow> string list"
  io_log :: "io_event list"
  stdout :: "string list"
  tick :: nat
  fails :: "nat \<Rightarrow> string option"
  unique_name :: "string list \<Rightarrow> string \<Rightarrow> string"
  decimate_verts :: "real \<Rightarrow> nat \<Rightarrow> nat"
  gltf_contents :: "string \<Rightarrow> object list"

text \<open>
  Exceptions are Python classes carrying their message. \<open>HostFault\<close> stands for any
  exception raised inside a host or operating-system call (RuntimeError, OSError, ...).
\<close>

datatype error =
    ValueError string
  | FileNotFoundError string
  | KeyError string
  | AttributeError string
  | HostFault string

definition quote :: string where
  "quote = [CHR 0x27]"

fun str :: "error \<Rightarrow> string" where
  "str (ValueError m) = m"
| "str (FileNotFoundError m) = m"
| "str (KeyError k) = quote @ k @ quote"
| "str (AttributeError m) = m"
| "str (HostFault m) = m"

subsection \<open>Statements that may raise\<close>

type_synonym step = "state \<Rightarrow> error option \<times> state"

definition skip :: step where
  "skip s = (None, s)"

definition raise :: "error \<Rightarrow> step" where
  "raise e s = (Some e, s)"

definition assign :: "(state \<Rightarrow> state) \<Rightarrow> step" where
  "assign f s = (None, f s)"

definition host_call :: "(state \<Rightarrow> state) \<Rightarrow> step" where
  "host_call f s =
     (case fails s (tick s) of
        Some m \<Rightarrow> (Some (HostFault m), s\<lparr>tick := Suc (tick s)\<rparr>)
      | None \<Rightarrow> (None, (f s)\<lparr>tick := Suc (tick s)\<rparr>))"

fun run_steps :: "step list \<Rightarrow> step" where
  "run_steps [] s = (None, s)"
| "run_steps (a # rest) s =
     (case a s of
        (Some e, s') \<Rightarrow> (Some e, s')
      | (None, s') \<Rightarrow> run_steps rest s')"

definition print :: "string \<Rightarrow> state \<Rightarrow> state" where
  "print line s = s\<lparr>stdout := stdout s @ [line]\<rparr>"

subsection \<open>Reading and updating the scene\<close>

definition obj_at :: "state \<Rightarrow> ref \<Rightarrow> object option" where
  "obj_at s r = (if r < length (objects s) then objects s ! r else None)"

definition refs :: "state \<Rightarrow> ref list" where
  "refs s = filter (\<lambda>r. obj_at s r \<noteq> None) [0..<length (objects s)]"

text \<open>\<open>bpy.data.objects.get(name)\<close>: the first object carrying the name, if any.\<close>

definition objects_get :: "state \<Rightarrow> string \<Rightarrow> ref option" where
  "objects_get s n =
     find (\<lambda>r. case obj_at s r of Some ob \<Rightarrow> name ob = n | None \<Rightarrow> False)
       [0..<length (objects s)]"

definition update_where :: "(ref \<Rightarrow> bool) \<Rightarrow> (object \<Rightarrow> object) \<Rightarrow> state \<Rightarrow> state" where
  "update_where P f s =
     s\<lparr>objects := map (\<lambda>r. if P r then map_option f (objects s ! r) else objects s ! r)
                      [0..<length (objects s)]\<rparr>"

definition update_obj :: "ref \<Rightarrow> (object \<Rightarrow> object) \<Rightarrow> state \<Rightarrow> state" where
  "update_obj r f s = update_where (\<lambda>x. x = r) f s"

definition update_mat :: "nat \<Rightarrow> (material \<Rightarrow> material) \<Rightarrow> state \<Rightarrow> state" where
  "update_mat m f s =
     (if m < length (data_materials s)
      then s\<lparr>data_materials := (data_materials s)[m := f (data_materials s ! m)]\<rparr>
      else s)"

text \<open>
  The host keeps names unique: a name already in use is replaced by a variant that the
  host chooses (\<open>unique_name\<close>, for Blender a numeric suffix).
\<close>

definition fresh_name :: "state \<Rightarrow> string list \<Rightarrow> string \<Rightarrow> string" where
  "fresh_name s used n = (if n \<in> set used then unique_name s used n else n)"

definition names_except :: "state \<Rightarrow> ref \<Rightarrow> string list" where
  "names_except s r = map (\<lambda>x. name (the (obj_at s x))) (filter (\<lambda>x. x \<noteq> r) (refs s))"

definition data_names_except :: "state \<Rightarrow> ref \<Rightarrow> string list" where
  "data_names_except s r =
     map (\<lambda>x. data_name (the (obj_at s x))) (filter (\<lambda>x. x \<noteq> r) (refs s))"

subsection \<open>Host operators\<close>

definition set_active :: "ref \<Rightarrow> step" where
  "set_active r = assign (\<lambda>s. s\<lparr>active := Some r\<rparr>)"

definition mode_set :: "mode \<Rightarrow> step" where
  "mode_set m = host_call (\<lambda>s. s\<lparr>mode := m\<rparr>)"

text \<open>\<open>bpy.ops.object.transform_apply(scale=True)\<close> acts on every selected object.\<close>

definition transform_apply :: step where
  "transform_apply =
     host_call (\<lambda>s. update_where (\<lambda>r. r \<in> selected s)
                       (\<lambda>ob. ob\<lparr>geometry := geometry ob @ [ScaleApplied]\<rparr>) s)"

definition modifiers_new :: "ref \<Rightarrow> string \<Rightarrow> string \<Rightarrow> step" where
  "modifiers_new r n t =
     host_call (\<lambda>s. update_obj r
       (\<lambda>ob. ob\<lparr>modifiers := modifiers ob @
                 [\<lparr>mod_name = fresh_name s (map mod_name (modifiers ob)) n,
                   mod_type = t, ratio = 1\<rparr>]\<rparr>) s)"

text \<open>\<open>decimate_mod.ratio = r\<close>, on the modifier just created (the last one).\<close>

definition set_new_modifier_ratio :: "ref \<Rightarrow> real \<Rightarrow> step" where
  "set_new_modifier_ratio r x =
     assign (update_obj r
       (\<lambda>ob. ob\<lparr>modifiers :=
                 (case rev (modifiers ob) of
                    [] \<Rightarrow> []
                  | m # rest \<Rightarrow> rev rest @ [m\<lparr>ratio := x\<rparr>])\<rparr>))"

definition apply_modifier :: "state \<Rightarrow> modifier \<Rightarrow> object \<Rightarrow> object" where
  "apply_modifier s m ob =
     ob\<lparr>geometry := geometry ob @ [ModifierApplied (mod_type m) (ratio m)],
        nverts := (if mod_type m = ''DECIMATE''
                   then decimate_verts s (ratio m) (nverts ob) else nverts ob),
        modifiers := remove1 m (modifiers ob)\<rparr>"

text \<open>
  \<open>bpy.ops.object.modifier_apply(modifier=n)\<close> applies the modifier of that name on the
  active object and fails when there is none.
\<close>

definition modifier_apply :: "string \<Rightarrow> step" where
  "modifier_apply n s =
     (case active s of
        None \<Rightarrow> raise (HostFault ''modifier_apply: no active object'') s
      | Some r \<Rightarrow>
          (case obj_at s r of
             None \<Rightarrow> raise (HostFault ''modifier_apply: no active object'') s
           | Some ob \<Rightarrow>
               (case find (\<lambda>m. mod_name m = n) (modifiers ob) of
                  None \<Rightarrow> raise (HostFault (''modifier_apply: no modifier '' @ n)) s
                | Some m \<Rightarrow> host_call (update_obj r (apply_modifier s m)) s)))"

text \<open>Edit-mode mesh operators act on the active object.\<close>

definition edit_op :: "geom_op \<Rightarrow> step" where
  "edit_op g =
     host_call (\<lambda>s. case active s of
                       None \<Rightarrow> s
                     | Some r \<Rightarrow> update_obj r (\<lambda>ob. ob\<lparr>geometry := geometry ob @ [g]\<rparr>) s)"

definition mesh_select_all :: step where
  "mesh_select_all = host_call (\<lambda>s. s)"

definition select_all :: "bool \<Rightarrow> step" where
  "select_all sel = host_call (\<lambda>s. s\<lparr>selected := (if sel then set (refs s) else {})\<rparr>)"

definition select_set :: "ref \<Rightarrow> step" where
  "select_set r = host_call (\<lambda>s. s\<lparr>selected := insert r (selected s)\<rparr>)"

text \<open>
  \<open>bpy.ops.object.parent_set(type='ARMATURE')\<close>: every selected object other than the
  active one becomes a child of the active one and is deformed by it.
\<close>

definition parent_set_armature :: step where
  "parent_set_armature =
     host_call (\<lambda>s. case active s of
                       None \<Rightarrow> s
                     | Some a \<Rightarrow>
                         update_where (\<lambda>r. r \<in> selected s \<and> r \<noteq> a)
                           (\<lambda>ob. ob\<lparr>parent := Some a, parent_type := ''OBJECT'',
                                    armature_deform := Some a\<rparr>) s)"

definition vertex_groups_new :: "ref \<Rightarrow> string \<Rightarrow> step" where
  "vertex_groups_new r n =
     host_call (update_obj r (\<lambda>ob. ob\<lparr>vertex_groups := vertex_groups ob @ [(n, [])]\<rparr>))"

text \<open>\<open>vg.add(indices, w, 'REPLACE')\<close> on the first group of the given name.\<close>

fun group_add ::
  "string \<Rightarrow> nat list \<Rightarrow> real \<Rightarrow> (string \<times> (nat \<times> real) list) list
     \<Rightarrow> (string \<times> (nat \<times> real) list) list" where
  "group_add n idxs w [] = []"
| "group_add n idxs w ((g, ws) # rest) =
     (if g = n
      then (g, map (\<lambda>i. (i, w)) idxs @ filter (\<lambda>(i, _). i \<notin> set idxs) ws) # rest
      else (g, ws) # group_add n idxs w rest)"

definition vg_add_all :: "ref \<Rightarrow> string \<Rightarrow> real \<Rightarrow> step" where
  "vg_add_all r n w =
     host_call (update_obj r
       (\<lambda>ob. ob\<lparr>vertex_groups := group_add n [0..<nverts ob] w (vertex_groups ob)\<rparr>))"

definition add_object :: "object \<Rightarrow> state \<Rightarrow> state" where
  "add_object ob s =
     s\<lparr>objects := objects s @
         [Some (ob\<lparr>name := fresh_name s (names_except s (length (objects s))) (name ob),
                   data_name :=
                     fresh_name s (data_names_except s (length (objects s))) (data_name ob)\<rparr>)]\<rparr>"

text \<open>
  \<open>bpy.ops.object.duplicate()\<close> copies every selected object; the copies replace the
  originals in the selection, and the copy of the active object becomes active.
\<close>

fun duplicate_all :: "ref list \<Rightarrow> state \<Rightarrow> state" where
  "duplicate_all [] s = s"
| "duplicate_all (r # rs) s =
     duplicate_all rs
       (case obj_at s r of
          None \<Rightarrow> s
        | Some ob \<Rightarrow>
            (add_object ob s)
              \<lparr>selected := insert (length (objects s)) (selected s - {r}),
               active := (if active s = Some r then Some (length (objects s)) else active s)\<rparr>)"

definition duplicate :: step where
  "duplicate = host_call (\<lambda>s. duplicate_all (filter (\<lambda>r. r \<in> selected s) (refs s)) s)"

definition set_name :: "ref \<Rightarrow> string \<Rightarrow> step" where
  "set_name r n =
     assign (\<lambda>s. update_obj r (\<lambda>ob. ob\<lparr>name := fresh_name s (names_except s r) n\<rparr>) s)"

definition set_data_name :: "ref \<Rightarrow> string \<Rightarrow> step" where
  "set_data_name r n =
     assign (\<lambda>s. update_obj r
                   (\<lambda>ob. ob\<lparr>data_name := fresh_name s (data_names_except s r) n\<rparr>) s)"

definition materials_get :: "state \<Rightarrow> string \<Rightarrow> nat option" where
  "materials_get s n =
     find (\<lambda>m. mat_name (data_materials s ! m) = n) [0..<length (data_materials s)]"

definition materials_new :: "string \<Rightarrow> step" where
  "materials_new n =
     host_call (\<lambda>s. s\<lparr>data_materials := data_materials s @
        [\<lparr>mat_name = n, use_nodes = False, image_nodes = [], base_color_links = []\<rparr>]\<rparr>)"

text \<open>\<open>bpy.data.objects[name]\<close>, which raises KeyError when no object has the name.\<close>

definition objects_index :: "string \<Rightarrow> (ref \<Rightarrow> step) \<Rightarrow> step" where
  "objects_index n k s =
     (case objects_get s n of
        None \<Rightarrow> raise (KeyError n) s
      | Some r \<Rightarrow> k r s)"

definition selected_refs :: "state \<Rightarrow> ref list" where
  "selected_refs s = filter (\<lambda>r. r \<in> selected s) (refs s)"

definition fbx_options :: "(string \<times> string) list" where
  "fbx_options =
     [(''use_selection'', ''True''), (''apply_scale_options'', ''FBX_SCALE_UNITS''),
      (''add_leaf_bones'', ''False''), (''use_armature_deform_only'', ''False''),
      (''bake_anim'', ''False''), (''axis_forward'', ''-Z''), (''axis_up'', ''Y''),
      (''use_mesh_modifiers'', ''True''), (''mesh_smooth_type'', ''FACE'')]"


definition export_scene_fbx :: "string \<Rightarrow> step" where
  "export_scene_fbx p =
     host_call (\<lambda>s. s\<lparr>io_log := io_log s @ [FbxExport p (selected_refs s) fbx_options],
                       fs_exists := (fs_exists s)(p := True)\<rparr>)"




subsection \<open>\<open>os\<close> and \<open>os.path\<close> (POSIX flavour), string methods\<close>

definition dirname :: "string \<Rightarrow> string" where
  "dirname p =
     (let head = rev (dropWhile (\<lambda>c. c \<noteq> CHR ''/'') (rev p))
      in if head \<noteq> [] \<and> head \<noteq> replicate (length head) (CHR ''/'')
         then rev (dropWhile (\<lambda>c. c = CHR ''/'') (rev head))
         else head)"

definition join :: "string \<Rightarrow> string \<Rightarrow> string" where
  "join a b =
     (if b \<noteq> [] \<and> hd b = CHR ''/'' then b
      else if a = [] \<or> last a = CHR ''/'' then a @ b
      else a @ ''/'' @ b)"






fun ancestors_upto :: "nat \<Rightarrow> string \<Rightarrow> string list" where
  "ancestors_upto 0 p = [p]"
| "ancestors_upto (Suc n) p =
     (let d = dirname p in if d = [] \<or> d = p then [p] else p # ancestors_upto n d)"

definition ancestors :: "string \<Rightarrow> string list" where
  "ancestors p = ancestors_upto (length p) p"

text \<open>
  \<open>os.makedirs(p)\<close> raises FileNotFoundError on the empty path; otherwise it makes \<open>p\<close>
  and every missing directory above it.
\<close>

definition makedirs :: "string \<Rightarrow> step" where
  "makedirs p =
     (if p = []
      then raise (FileNotFoundError (''[Errno 2] No such file or directory: '' @ quote @ quote))
      else host_call (\<lambda>s. s\<lparr>fs_exists := (\<lambda>q. q \<in> set (ancestors p) \<or> fs_exists s q),
                            fs_isdir := (\<lambda>q. q \<in> set (ancestors p) \<or> fs_isdir s q)\<rparr>))"

text \<open>\<open>if not os.path.exists(d): os.makedirs(d)\<close>\<close>

definition ensure_dir :: "string \<Rightarrow> step" where
  "ensure_dir d s = (if \<not> fs_exists s d then makedirs d s else skip s)"

section \<open>\<open>bpyauto.py\<close>: the preparation pipeline\<close>

record config =
  object_name :: string
  accessory_type :: string
  attachment_name :: string
  rig_name :: string
  head_bone_name :: string
  apply_scale :: bool
  decimate_ratio :: "real option"
  export_path :: string
  uv_unwrap_method :: string
  texture_path :: "string option"
  material_name :: string

text \<open>1. Setup and validation: the references to the object and the rig, or the error.\<close>

definition object_error :: "config \<Rightarrow> error" where
  "object_error cfg =
     ValueError (''Object '' @ quote @ object_name cfg @ quote @ '' not found or is not a mesh.'')"

definition rig_error :: "config \<Rightarrow> error" where
  "rig_error cfg =
     ValueError (''Rig '' @ quote @ rig_name cfg @ quote @ '' not found or is not an armature.'')"

definition bone_error :: "config \<Rightarrow> error" where
  "bone_error cfg =
     ValueError (''Head bone '' @ quote @ head_bone_name cfg @ quote @
                 '' not found in the armature.'')"

definition validate :: "config \<Rightarrow> state \<Rightarrow> error + ref \<times> ref" where
  "validate cfg s =
     (case objects_get s (object_name cfg) of
        None \<Rightarrow> Inl (object_error cfg)
      | Some obj \<Rightarrow>
          if otype (the (obj_at s obj)) \<noteq> ''MESH'' then Inl (object_error cfg)
          else
            (case objects_get s (rig_name cfg) of
               None \<Rightarrow> Inl (rig_error cfg)
             | Some rig \<Rightarrow>
                 if otype (the (obj_at s rig)) \<noteq> ''ARMATURE'' then Inl (rig_error cfg)
                 else if head_bone_name cfg \<notin> set (bones (the (obj_at s rig)))
                 then Inl (bone_error cfg)
                 else Inr (obj, rig)))"

text \<open>2. Object mode operations.\<close>

definition object_mode_operations :: "config \<Rightarrow> ref \<Rightarrow> step" where
  "object_mode_operations cfg obj =
     run_steps ([set_active obj, mode_set OBJECT] @
                (if apply_scale cfg then [transform_apply] else []))"

text \<open>3. Decimation (optional).\<close>

definition decimation :: "config \<Rightarrow> ref \<Rightarrow> step" where
  "decimation cfg obj =
     (case decimate_ratio cfg of
        None \<Rightarrow> skip
      | Some r \<Rightarrow>
          if \<not> (0 \<le> r \<and> r \<le> 1)
          then raise (ValueError ''decimate_ratio must be between 0.0 and 1.0'')
          else run_steps [modifiers_new obj ''Decimate'' ''DECIMATE'',
                          set_new_modifier_ratio obj r,
                          modifier_apply ''Decimate''])"

text \<open>4. UV unwrapping.\<close>

definition uv_unwrapping :: "config \<Rightarrow> ref \<Rightarrow> step" where
  "uv_unwrapping cfg obj =
     run_steps [set_active obj, mode_set EDIT, mesh_select_all,
                (if uv_unwrap_method cfg = ''SMART_PROJECT'' then edit_op SmartProject
                 else if uv_unwrap_method cfg = ''UNWRAP'' then edit_op Unwrap
                 else raise (ValueError (''Invalid uv_unwrap_method: '' @ uv_unwrap_method cfg))),
                mode_set OBJECT]"

text \<open>5. Basic texture handling, for the material at index \<open>m\<close> and the texture file \<open>p\<close>.\<close>

definition material_steps :: "ref \<Rightarrow> string \<Rightarrow> nat \<Rightarrow> step list" where
  "material_steps obj p m =
     [assign (update_mat m (\<lambda>mt. mt\<lparr>use_nodes := True\<rparr>)),
      host_call (\<lambda>s. s),
      host_call (update_mat m (\<lambda>mt. mt\<lparr>image_nodes := image_nodes mt @ [None]\<rparr>)),
      host_call (\<lambda>s. s\<lparr>data_images := data_images s @ [p]\<rparr>),
      assign (update_mat m
        (\<lambda>mt. mt\<lparr>image_nodes := (image_nodes mt)[length (image_nodes mt) - 1 := Some p]\<rparr>)),
      host_call (update_mat m
        (\<lambda>mt. mt\<lparr>base_color_links := base_color_links mt @ [length (image_nodes mt) - 1]\<rparr>)),
      assign (update_obj obj
        (\<lambda>ob. ob\<lparr>materials := (if length (materials ob) > 0 then (materials ob)[0 := m]
                                 else materials ob @ [m])\<rparr>))]"

definition texture_handling :: "config \<Rightarrow> ref \<Rightarrow> step" where
  "texture_handling cfg obj s =
     (case texture_path cfg of
        None \<Rightarrow> skip s
      | Some p \<Rightarrow>
          if p = [] then skip s
          else if \<not> fs_exists s p
          then raise (FileNotFoundError (''Texture file not found: '' @ p)) s
          else
            (case materials_get s (material_name cfg) of
               Some m \<Rightarrow> run_steps (material_steps obj p m) s
             | None \<Rightarrow>
                 run_steps (materials_new (material_name cfg) #
                            material_steps obj p (length (data_materials s))) s))"

text \<open>6. Rigging.\<close>

definition ensure_vertex_group :: "ref \<Rightarrow> string \<Rightarrow> step" where
  "ensure_vertex_group r n s =
     (case obj_at s r of
        None \<Rightarrow> raise (HostFault ''object has been removed'') s
      | Some ob \<Rightarrow>
          if map_of (vertex_groups ob) n = None then vertex_groups_new r n s else skip s)"

definition rigging :: "config \<Rightarrow> ref \<Rightarrow> ref \<Rightarrow> step" where
  "rigging cfg obj rig =
     run_steps [assign (update_obj obj (\<lambda>ob. ob\<lparr>parent := Some rig\<rparr>)),
                assign (update_obj obj (\<lambda>ob. ob\<lparr>parent_type := ''OBJECT''\<rparr>)),
                select_all False, select_set rig, select_set obj, set_active rig,
                parent_set_armature, select_all False,
                set_active obj, mode_set WEIGHT_PAINT,
                ensure_vertex_group obj (head_bone_name cfg),
                mode_set EDIT, mesh_select_all, mode_set OBJECT,
                vg_add_all obj (head_bone_name cfg) 1,
                mode_set WEIGHT_PAINT]"

text \<open>7. Cage creation.\<close>

definition cage_steps :: "config \<Rightarrow> ref \<Rightarrow> string \<Rightarrow> real \<Rightarrow> ref \<Rightarrow> step list" where
  "cage_steps cfg rig cage_name scale_factor cage =
     [set_name cage cage_name, set_data_name cage cage_name,
      set_active cage, mode_set EDIT,
      edit_op (Resize scale_factor scale_factor scale_factor),
      mode_set OBJECT,
      assign (update_obj cage (\<lambda>ob. ob\<lparr>parent := Some rig\<rparr>)),
      assign (update_obj cage (\<lambda>ob. ob\<lparr>parent_type := ''OBJECT''\<rparr>)),
      select_all False, select_set rig, select_set cage, set_active rig,
      parent_set_armature,
      set_active cage,
      ensure_vertex_group cage (head_bone_name cfg),
      mode_set EDIT, mesh_select_all, mode_set OBJECT,
      vg_add_all cage (head_bone_name cfg) 1,
      mode_set OBJECT, select_all False]"

definition create_cage :: "config \<Rightarrow> ref \<Rightarrow> ref \<Rightarrow> string \<Rightarrow> real \<Rightarrow> step" where
  "create_cage cfg obj rig cage_name scale_factor =
     run_steps [mode_set OBJECT, select_all False, select_set obj, set_active obj, duplicate,
                (\<lambda>s. case active s of
                        None \<Rightarrow> raise (AttributeError ''NoneType object has no attribute name'') s
                      | Some cage \<Rightarrow>
                          run_steps (cage_steps cfg rig cage_name scale_factor cage) s)]"

text \<open>8. FBX export.\<close>

definition resolve_export_path :: "config \<Rightarrow> state \<Rightarrow> string" where
  "resolve_export_path cfg s =
     (if export_path cfg = []
      then dirname (filepath s) @ ''/'' @ object_name cfg @ ''.fbx''
      else if fs_isdir s (export_path cfg)
      then join (export_path cfg) (object_name cfg @ ''.fbx'')
      else export_path cfg)"

definition fbx_export :: "config \<Rightarrow> ref \<Rightarrow> ref \<Rightarrow> step" where
  "fbx_export cfg obj rig s =
     (let p = resolve_export_path cfg s
      in run_steps [ensure_dir (dirname p),
                    select_all False, select_set obj, select_set rig,
                    objects_index ''InnerCage'' select_set,
                    objects_index ''OuterCage'' select_set,
                    export_scene_fbx p,
                    assign (print (''Successfully exported to: '' @ p))] s)"

text \<open>The body of the \<open>try\<close> block, and the function with its \<open>except Exception\<close> handler.\<close>

definition try_body :: "config \<Rightarrow> step" where
  "try_body cfg s =
     (case validate cfg s of
        Inl e \<Rightarrow> raise e s
      | Inr (obj, rig) \<Rightarrow>
          run_steps [object_mode_operations cfg obj,
                     decimation cfg obj,
                     uv_unwrapping cfg obj,
                     texture_handling cfg obj,
                     rigging cfg obj rig,
                     create_cage cfg obj rig ''InnerCage'' 0.98,
                     create_cage cfg obj rig ''OuterCage'' 1.02,
                     fbx_export cfg obj rig] s)"

definition prepare_for_roblox :: "config \<Rightarrow> state \<Rightarrow> bool \<times> state" where
  "prepare_for_roblox cfg s =
     (case try_body cfg s of
        (None, s') \<Rightarrow> (True, s')
      | (Some e, s') \<Rightarrow> (False, print (''Error: '' @ str e) s'))"

section \<open>\<open>glbtoobj.py\<close>: the batch format converter\<close>






section \<open>Notions used to state the properties\<close>

text \<open>What a configuration names in a scene.\<close>

definition names_mesh :: "state \<Rightarrow> string \<Rightarrow> bool" where
  "names_mesh s n =
     (case objects_get s n of
        None \<Rightarrow> False
      | Some r \<Rightarrow> otype (the (obj_at s r)) = ''MESH'')"

definition names_armature :: "state \<Rightarrow> string \<Rightarrow> bool" where
  "names_armature s n =
     (case objects_get s n of
        None \<Rightarrow> False
      | Some r \<Rightarrow> otype (the (obj_at s r)) = ''ARMATURE'')"

definition has_bone :: "state \<Rightarrow> string \<Rightarrow> string \<Rightarrow> bool" where
  "has_bone s n b =
     (case objects_get s n of
        None \<Rightarrow> False
      | Some r \<Rightarrow> b \<in> set (bones (the (obj_at s r))))"

text \<open>The part of the state that no scene operator touches.\<close>

definition surroundings ::
  "state \<Rightarrow> string list \<times> (string \<Rightarrow> bool) \<times> (string \<Rightarrow> bool) \<times> (string \<Rightarrow> string list) \<times>
     string \<times> io_event list \<times> (nat \<Rightarrow> string option) \<times> (string list \<Rightarrow> string \<Rightarrow> string) \<times>
     (real \<Rightarrow> nat \<Rightarrow> nat) \<times> (string \<Rightarrow> object list)" where
  "surroundings s =
     (stdout s, fs_exists s, fs_isdir s, fs_listdir s, filepath s, io_log s, fails s,
      unique_name s, decimate_verts s, gltf_contents s)"

definition scene_only :: "step \<Rightarrow> bool" where
  "scene_only a = (\<forall>s. surroundings (snd (a s)) = surroundings s)"


subsection \<open>An example scene\<close>

definition helmet :: object where
  "helmet = \<lparr>name = ''MyHelmet'', otype = ''MESH'', data_name = ''MyHelmet'', bones = [],
     nverts = 4, geometry = [], modifiers = [], materials = [], vertex_groups = [],
     parent = None, parent_type = ''OBJECT'', armature_deform = None\<rparr>"

definition r6 :: object where
  "r6 = \<lparr>name = ''R6'', otype = ''ARMATURE'', data_name = ''R6'', bones = [''Head'', ''Torso''],
     nverts = 0, geometry = [], modifiers = [], materials = [], vertex_groups = [],
     parent = None, parent_type = ''OBJECT'', armature_deform = None\<rparr>"

definition demo_state :: state where
  "demo_state = \<lparr>objects = [Some helmet, Some r6], data_materials = [], data_images = [],
     filepath = ''/work/scene.blend'', active = None, selected = {0}, mode = OBJECT,
     fs_exists = (\<lambda>p. p = ''/work'' \<or> p = ''/tex/helmet.png''),
     fs_isdir = (\<lambda>p. p = ''/work''),
     fs_listdir = (\<lambda>_. []), io_log = [], stdout = [], tick = 0,
     fails = (\<lambda>_. None), unique_name = (\<lambda>used n. n @ ''.001''),
     decimate_verts = (\<lambda>r n. n), gltf_contents = (\<lambda>_. [])\<rparr>"

definition demo_config :: config where
  "demo_config = \<lparr>object_name = ''MyHelmet'', accessory_type = ''Hat'',
     attachment_name = ''HatAttachment'', rig_name = ''R6'', head_bone_name = ''Head'',
     apply_scale = True, decimate_ratio = Some 0.5, export_path = '''',
     uv_unwrap_method = ''SMART_PROJECT'', texture_path = Some ''/tex/helmet.png'',
     material_name = ''MyHelmetMaterial''\<rparr>"








section \<open>Scene operators leave the surroundings alone\<close>

lemma surroundings_update_where [simp]: "surroundings (update_where P f s) = surroundings s"
  by (simp add: surroundings_def update_where_def)

lemma surroundings_update_obj [simp]: "surroundings (update_obj r f s) = surroundings s"
  by (simp add: update_obj_def)

lemma surroundings_update_mat [simp]: "surroundings (update_mat m f s) = surroundings s"
  by (simp add: surroundings_def update_mat_def)

lemma surroundings_add_object [simp]: "surroundings (add_object ob s) = surroundings s"
  by (simp add: surroundings_def add_object_def)

lemma surroundings_duplicate_all [simp]: "surroundings (duplicate_all rs s) = surroundings s"
proof (induction rs arbitrary: s)
  case Nil
  show ?case by simp
next
  case (Cons r rs)
  have "surroundings (case obj_at s r of
          None \<Rightarrow> s
        | Some ob \<Rightarrow>
            (add_object ob s)
              \<lparr>selected := insert (length (objects s)) (selected s - {r}),
               active := (if active s = Some r then Some (length (objects s)) else active s)\<rparr>)
        = surroundings s"
    using surroundings_add_object by (auto simp: surroundings_def split: option.splits)
  with Cons show ?case by simp
qed




lemma surroundings_tick [simp]: "surroundings (s\<lparr>tick := n\<rparr>) = surroundings s"
  by (simp add: surroundings_def)



lemma scene_only_cond:
  "(\<And>s. scene_only (k s)) \<Longrightarrow> scene_only (\<lambda>s. k s s)"
  by (simp add: scene_only_def)


















lemma validate_failure:
  assumes "\<not> names_mesh s (object_name cfg) \<or> \<not> names_armature s (rig_name cfg) \<or>
           \<not> has_bone s (rig_name cfg) (head_bone_name cfg)"
  shows "\<exists>e \<in> {object_error cfg, rig_error cfg, bone_error cfg}. validate cfg s = Inl e"
  using assms
  by (auto simp: validate_def names_mesh_def names_armature_def has_bone_def
      split: option.splits)

section \<open>Properties of the preparation pipeline\<close>

text \<open>
  Claim C3. When the configuration names an object that is absent or not a mesh, a rig
  that is absent or not an armature, or a head bone that the rig does not have, the \<open>try\<close>
  block raises one of the three not-found errors in the very state it started from, and
  \<open>prepare_for_roblox\<close> returns False having changed nothing but the console.
\<close>

theorem invalid_names_fail_without_mutation:
  assumes "\<not> names_mesh s (object_name cfg) \<or> \<not> names_armature s (rig_name cfg) \<or>
           \<not> has_bone s (rig_name cfg) (head_bone_name cfg)"
  shows "\<exists>e \<in> {object_error cfg, rig_error cfg, bone_error cfg}.
           try_body cfg s = (Some e, s) \<and>
           prepare_for_roblox cfg s = (False, s\<lparr>stdout := stdout s @ [''Error: '' @ str e]\<rparr>)"
proof -
  from validate_failure[OF assms] obtain e
    where e: "e \<in> {object_error cfg, rig_error cfg, bone_error cfg}"
      and v: "validate cfg s = Inl e" by blast
  have "try_body cfg s = (Some e, s)"
    using v by (simp add: try_body_def raise_def)
  then have "prepare_for_roblox cfg s = (False, s\<lparr>stdout := stdout s @ [''Error: '' @ str e]\<rparr>)"
    by (simp add: prepare_for_roblox_def print_def)
  with e \<open>try_body cfg s = (Some e, s)\<close> show ?thesis by blast
qed

theorem invalid_names_fail_without_mutation_witness:
  "\<not> names_mesh demo_state (object_name (demo_config\<lparr>object_name := ''Missing''\<rparr>)) \<and>
   (\<exists>e \<in> {object_error (demo_config\<lparr>object_name := ''Missing''\<rparr>),
            rig_error (demo_config\<lparr>object_name := ''Missing''\<rparr>),
            bone_error (demo_config\<lparr>object_name := ''Missing''\<rparr>)}.
      try_body (demo_config\<lparr>object_name := ''Missing''\<rparr>) demo_state = (Some e, demo_state) \<and>
      prepare_for_roblox (demo_config\<lparr>object_name := ''Missing''\<rparr>) demo_state =
        (False, demo_state\<lparr>stdout := stdout demo_state @ [''Error: '' @ str e]\<rparr>))"
proof -
  have h: "\<not> names_mesh demo_state (object_name (demo_config\<lparr>object_name := ''Missing''\<rparr>))"
    by (simp add: names_mesh_def objects_get_def obj_at_def demo_state_def demo_config_def
        helmet_def r6_def)
  from h invalid_names_fail_without_mutation[where s = demo_state
      and cfg = "demo_config\<lparr>object_name := ''Missing''\<rparr>"]
  show ?thesis by blast
qed

lemma phases_ignore_tags:
  "validate (cfg\<lparr>accessory_type := a, attachment_name := b\<rparr>) = validate cfg"
  "object_mode_operations (cfg\<lparr>accessory_type := a, attachment_name := b\<rparr>) = object_mode_operations cfg"
  "decimation (cfg\<lparr>accessory_type := a, attachment_name := b\<rparr>) = decimation cfg"
  "uv_unwrapping (cfg\<lparr>accessory_type := a, attachment_name := b\<rparr>) = uv_unwrapping cfg"
  "texture_handling (cfg\<lparr>accessory_type := a, attachment_name := b\<rparr>) = texture_handling cfg"
  "rigging (cfg\<lparr>accessory_type := a, attachment_name := b\<rparr>) = rigging cfg"
  "create_cage (cfg\<lparr>accessory_type := a, attachment_name := b\<rparr>) = create_cage cfg"
  "fbx_export (cfg\<lparr>accessory_type := a, attachment_name := b\<rparr>) = fbx_export cfg"
  by (auto simp: fun_eq_iff validate_def object_error_def rig_error_def bone_error_def
        object_mode_operations_def decimation_def uv_unwrapping_def texture_handling_def
        rigging_def create_cage_def cage_steps_def fbx_export_def resolve_export_path_def
      simp del: run_steps.simps split: option.splits cong: option.case_cong)

text \<open>
  Claim C9. The accessory type and the attachment name have no effect: changing them
  changes neither the result nor the final state.
\<close>

theorem tags_have_no_effect:
  "prepare_for_roblox (cfg\<lparr>accessory_type := a, attachment_name := b\<rparr>) s =
   prepare_for_roblox cfg s"
proof -
  have "try_body (cfg\<lparr>accessory_type := a, attachment_name := b\<rparr>) s = try_body cfg s"
    by (auto simp: try_body_def phases_ignore_tags simp del: run_steps.simps
        split: sum.splits prod.splits)
  then show ?thesis
    by (simp add: prepare_for_roblox_def)
qed

theorem tags_have_no_effect_witness:
  "prepare_for_roblox (demo_config\<lparr>accessory_type := ''Hair'', attachment_name := ''HairAttachment''\<rparr>)
     demo_state = prepare_for_roblox demo_config demo_state"
  using tags_have_no_effect[where cfg = demo_config and a = "''Hair''"
      and b = "''HairAttachment''" and s = demo_state] by simp

lemma phases_ignore_texture_path:
  "validate (cfg\<lparr>texture_path := t\<rparr>) = validate cfg"
  "object_mode_operations (cfg\<lparr>texture_path := t\<rparr>) = object_mode_operations cfg"
  "decimation (cfg\<lparr>texture_path := t\<rparr>) = decimation cfg"
  "uv_unwrapping (cfg\<lparr>texture_path := t\<rparr>) = uv_unwrapping cfg"
  "rigging (cfg\<lparr>texture_path := t\<rparr>) = rigging cfg"
  "create_cage (cfg\<lparr>texture_path := t\<rparr>) = create_cage cfg"
  "fbx_export (cfg\<lparr>texture_path := t\<rparr>) = fbx_export cfg"
  by (auto simp: fun_eq_iff validate_def object_error_def rig_error_def bone_error_def
        object_mode_operations_def decimation_def uv_unwrapping_def
        rigging_def create_cage_def cage_steps_def fbx_export_def resolve_export_path_def
      simp del: run_steps.simps split: option.splits cong: option.case_cong)

text \<open>
  Claim C10. An empty texture path is treated like an absent one: the texture step does
  nothing and raises nothing, and the whole run is the same as with no texture path.
\<close>

theorem empty_texture_path_is_no_texture:
  "texture_handling (cfg\<lparr>texture_path := Some []\<rparr>) obj s = (None, s) \<and>
   texture_handling (cfg\<lparr>texture_path := None\<rparr>) obj s = (None, s) \<and>
   prepare_for_roblox (cfg\<lparr>texture_path := Some []\<rparr>) s =
   prepare_for_roblox (cfg\<lparr>texture_path := None\<rparr>) s"
proof -
  have t: "texture_handling (cfg\<lparr>texture_path := Some []\<rparr>) =
           texture_handling (cfg\<lparr>texture_path := None\<rparr>)"
    by (simp add: fun_eq_iff texture_handling_def)
  have "try_body (cfg\<lparr>texture_path := Some []\<rparr>) s = try_body (cfg\<lparr>texture_path := None\<rparr>) s"
    by (auto simp: try_body_def phases_ignore_texture_path t simp del: run_steps.simps
        split: sum.splits prod.splits)
  then show ?thesis
    by (simp add: prepare_for_roblox_def texture_handling_def skip_def)
qed

theorem empty_texture_path_is_no_texture_witness:
  "texture_handling (demo_config\<lparr>texture_path := Some []\<rparr>) 0 demo_state = (None, demo_state) \<and>
   texture_handling (demo_config\<lparr>texture_path := None\<rparr>) 0 demo_state = (None, demo_state) \<and>
   prepare_for_roblox (demo_config\<lparr>texture_path := Some []\<rparr>) demo_state =
   prepare_for_roblox (demo_config\<lparr>texture_path := None\<rparr>) demo_state"
  using empty_texture_path_is_no_texture[where cfg = demo_config and obj = 0
      and s = demo_state] by simp



text \<open>
  Claim C1, as stated, fails: the ratio is checked in the decimation step, after the
  object has been made active, the mode set and the scale baked. In the example scene
  an out-of-range ratio makes the run fail with the scale already applied to the mesh.
\<close>

theorem ratio_checked_after_scale_bake_counterexample:
  "fst (prepare_for_roblox (demo_config\<lparr>decimate_ratio := Some (3 / 2)\<rparr>) demo_state) = False \<and>
   stdout (snd (prepare_for_roblox (demo_config\<lparr>decimate_ratio := Some (3 / 2)\<rparr>) demo_state)) =
     [''Error: decimate_ratio must be between 0.0 and 1.0''] \<and>
   map_option geometry (obj_at demo_state 0) = Some [] \<and>
   map_option geometry
     (obj_at (snd (prepare_for_roblox (demo_config\<lparr>decimate_ratio := Some (3 / 2)\<rparr>) demo_state)) 0) =
     Some [ScaleApplied]"
  by code_simp

text \<open>
  Claim C1, amended. When validation passes, the ratio is present and outside \<open>[0,1]\<close>,
  and the host calls before the check succeed, \<open>prepare_for_roblox\<close> returns False and
  reports the ratio error. At that moment the object is active and the mode is OBJECT;
  with the apply-scale flag set, the scale of the selected objects has been baked as
  well; without it the scene is otherwise unchanged. Nothing of the later steps has been
  performed.
\<close>

theorem out_of_range_ratio_fails_after_scale_bake:
  assumes "validate cfg s = Inr (obj, rig)"
    and "decimate_ratio cfg = Some r"
    and "\<not> (0 \<le> r \<and> r \<le> 1)"
    and "fails s (tick s) = None"
    and "apply_scale cfg \<longrightarrow> fails s (Suc (tick s)) = None"
  shows "prepare_for_roblox cfg s =
    (False,
     (if apply_scale cfg
      then (update_where (\<lambda>x. x \<in> selected s)
              (\<lambda>ob. ob\<lparr>geometry := geometry ob @ [ScaleApplied]\<rparr>)
              (s\<lparr>active := Some obj, mode := OBJECT\<rparr>))
           \<lparr>tick := tick s + 2\<rparr>
      else s\<lparr>active := Some obj, mode := OBJECT, tick := tick s + 1\<rparr>)
     \<lparr>stdout := stdout s @ [''Error: decimate_ratio must be between 0.0 and 1.0'']\<rparr>)"
  using assms
  by (cases "apply_scale cfg")
     (simp_all add: prepare_for_roblox_def try_body_def object_mode_operations_def
        decimation_def set_active_def mode_set_def transform_apply_def assign_def
        host_call_def raise_def print_def update_where_def)

theorem out_of_range_ratio_fails_after_scale_bake_witness:
  "validate (demo_config\<lparr>decimate_ratio := Some (3 / 2)\<rparr>) demo_state = Inr (0, 1) \<and>
   prepare_for_roblox (demo_config\<lparr>decimate_ratio := Some (3 / 2)\<rparr>) demo_state =
    (False,
     (update_where (\<lambda>x. x \<in> selected demo_state)
              (\<lambda>ob. ob\<lparr>geometry := geometry ob @ [ScaleApplied]\<rparr>)
              (demo_state\<lparr>active := Some 0, mode := OBJECT\<rparr>))
     \<lparr>tick := tick demo_state + 2,
       stdout := stdout demo_state @ [''Error: decimate_ratio must be between 0.0 and 1.0'']\<rparr>)"
proof -
  have v: "validate (demo_config\<lparr>decimate_ratio := Some (3 / 2)\<rparr>) demo_state = Inr (0, 1)"
    by code_simp
  have f: "fails demo_state (tick demo_state) = None"
    "apply_scale (demo_config\<lparr>decimate_ratio := Some (3 / 2)\<rparr>) \<longrightarrow>
       fails demo_state (Suc (tick demo_state)) = None"
    by (simp_all add: demo_state_def)
  have a: "apply_scale (demo_config\<lparr>decimate_ratio := Some (3 / 2)\<rparr>)"
    by (simp add: demo_config_def)
  show ?thesis
    using out_of_range_ratio_fails_after_scale_bake[OF v _ _ f, of "3 / 2"] v a
    by simp
qed

lemma obj_at_update_where:
  "obj_at (update_where P f s) r = (if P r then map_option f (obj_at s r) else obj_at s r)"
  by (simp add: obj_at_def update_where_def)

lemma obj_at_update_obj:
  "obj_at (update_obj x f s) r = (if r = x then map_option f (obj_at s r) else obj_at s r)"
  by (simp add: update_obj_def obj_at_update_where)

lemma obj_at_tick [simp]: "obj_at (s\<lparr>tick := t\<rparr>) r = obj_at s r"
  by (simp add: obj_at_def)

lemma validate_object:
  assumes "validate cfg s = Inr (obj, rig)"
  shows "\<exists>ob. obj_at s obj = Some ob"
proof -
  have "objects_get s (object_name cfg) = Some obj"
    using assms by (auto simp: validate_def split: option.splits if_splits)
  then show ?thesis
    by (auto simp: objects_get_def find_Some_iff split: option.splits)
qed

lemma object_mode_operations_object:
  assumes "object_mode_operations cfg obj s = (None, s0)"
  shows "active s0 = Some obj \<and>
         obj_at s0 r =
           (if apply_scale cfg \<and> r \<in> selected s
            then map_option (\<lambda>ob. ob\<lparr>geometry := geometry ob @ [ScaleApplied]\<rparr>) (obj_at s r)
            else obj_at s r)"
  using assms
  by (cases "apply_scale cfg")
     (auto simp: object_mode_operations_def set_active_def mode_set_def transform_apply_def
        assign_def host_call_def obj_at_update_where update_where_def obj_at_def
      split: option.splits if_splits)

lemma find_new_modifier:
  "find (\<lambda>m. mod_name m = n)
     (ms @ [\<lparr>mod_name = (if n \<in> set (map mod_name ms) then u else n),
              mod_type = t, ratio = x\<rparr>]) =
   (case find (\<lambda>m. mod_name m = n) ms of
      None \<Rightarrow> Some \<lparr>mod_name = n, mod_type = t, ratio = x\<rparr>
    | Some m \<Rightarrow> Some m)"
  by (induction ms) auto

lemma decimation_object:
  assumes "decimation cfg obj s0 = (None, s1)"
    and "active s0 = Some obj"
    and "obj_at s0 obj = Some ob"
  shows "map_option geometry (obj_at s1 obj) =
     Some (geometry ob @
       (case decimate_ratio cfg of
          None \<Rightarrow> []
        | Some r \<Rightarrow>
            (case find (\<lambda>m. mod_name m = ''Decimate'') (modifiers ob) of
               None \<Rightarrow> [ModifierApplied ''DECIMATE'' r]
             | Some m \<Rightarrow> [ModifierApplied (mod_type m) (ratio m)])))"
proof (cases "decimate_ratio cfg")
  case None
  then show ?thesis
    using assms by (simp add: decimation_def skip_def)
next
  case (Some r)
  have range: "0 \<le> r \<and> r \<le> 1"
    using assms(1) Some by (auto simp: decimation_def raise_def split: if_splits)
  define new where "new = \<lparr>mod_name = fresh_name s0 (map mod_name (modifiers ob)) ''Decimate'',
                            mod_type = ''DECIMATE'', ratio = 1\<rparr>"
  define sa where "sa = (update_obj obj (\<lambda>ob. ob\<lparr>modifiers := modifiers ob @
                 [\<lparr>mod_name = fresh_name s0 (map mod_name (modifiers ob)) ''Decimate'',
                   mod_type = ''DECIMATE'', ratio = 1\<rparr>]\<rparr>) s0)\<lparr>tick := Suc (tick s0)\<rparr>"
  define sb where "sb = update_obj obj
       (\<lambda>ob. ob\<lparr>modifiers :=
                 (case rev (modifiers ob) of
                    [] \<Rightarrow> []
                  | m # rest \<Rightarrow> rev rest @ [m\<lparr>ratio := r\<rparr>])\<rparr>) sa"
  have run: "run_steps [modifiers_new obj ''Decimate'' ''DECIMATE'',
                          set_new_modifier_ratio obj r,
                          modifier_apply ''Decimate''] s0 = (None, s1)"
    using assms(1) Some range by (simp add: decimation_def)
  have f0: "fails s0 (tick s0) = None"
    using run by (auto simp: modifiers_new_def host_call_def split: option.splits)
  have a: "modifiers_new obj ''Decimate'' ''DECIMATE'' s0 = (None, sa)"
    using f0 by (simp add: modifiers_new_def host_call_def sa_def)
  have b: "set_new_modifier_ratio obj r sa = (None, sb)"
    by (simp add: set_new_modifier_ratio_def assign_def sb_def)
  have c: "modifier_apply ''Decimate'' sb = (None, s1)"
    using run a b by (auto split: prod.splits option.splits)
  have oa: "obj_at sa obj = Some (ob\<lparr>modifiers := modifiers ob @ [new]\<rparr>)"
    using assms(3) by (simp add: sa_def obj_at_update_obj new_def)
  have ob: "obj_at sb obj = Some (ob\<lparr>modifiers := modifiers ob @ [new\<lparr>ratio := r\<rparr>]\<rparr>)"
    using oa by (simp add: sb_def obj_at_update_obj)
  have act: "active sb = Some obj"
    using assms(2) by (simp add: sb_def sa_def update_obj_def update_where_def)
  have fnd: "find (\<lambda>m. mod_name m = ''Decimate'') (modifiers ob @ [new\<lparr>ratio := r\<rparr>]) =
      (case find (\<lambda>m. mod_name m = ''Decimate'') (modifiers ob) of
         None \<Rightarrow> Some \<lparr>mod_name = ''Decimate'', mod_type = ''DECIMATE'', ratio = r\<rparr>
       | Some m \<Rightarrow> Some m)"
    using find_new_modifier[of "''Decimate''" "modifiers ob"
        "unique_name s0 (map mod_name (modifiers ob)) ''Decimate''" "''DECIMATE''" r]
    by (simp add: new_def fresh_name_def)
  obtain m where m: "find (\<lambda>m. mod_name m = ''Decimate'') (modifiers ob @ [new\<lparr>ratio := r\<rparr>]) = Some m"
    using fnd by (cases "find (\<lambda>m. mod_name m = ''Decimate'') (modifiers ob)") simp_all
  have "s1 = (update_obj obj (apply_modifier sb m) sb)\<lparr>tick := Suc (tick sb)\<rparr>"
    using c act ob m
    by (auto simp: modifier_apply_def host_call_def raise_def split: option.splits)
  then have "map_option geometry (obj_at s1 obj) =
      Some (geometry ob @ [ModifierApplied (mod_type m) (ratio m)])"
    using ob by (simp add: obj_at_update_obj apply_modifier_def)
  then show ?thesis
    using Some fnd m
    by (cases "find (\<lambda>m. mod_name m = ''Decimate'') (modifiers ob)") auto
qed

text \<open>
  Claim C2, as stated, fails: the unwrap method is checked in the unwrap step, after the
  scale bake and the decimation. In the example scene an unknown method makes the run
  fail with both already applied to the mesh.
\<close>

theorem unwrap_method_checked_after_decimation_counterexample:
  "fst (prepare_for_roblox (demo_config\<lparr>uv_unwrap_method := ''CUBE''\<rparr>) demo_state) = False \<and>
   stdout (snd (prepare_for_roblox (demo_config\<lparr>uv_unwrap_method := ''CUBE''\<rparr>) demo_state)) =
     [''Error: Invalid uv_unwrap_method: CUBE''] \<and>
   map_option geometry (obj_at demo_state 0) = Some [] \<and>
   map_option geometry
     (obj_at (snd (prepare_for_roblox (demo_config\<lparr>uv_unwrap_method := ''CUBE''\<rparr>) demo_state)) 0) =
     Some [ScaleApplied, ModifierApplied ''DECIMATE'' (1 / 2)]"
  by code_simp

text \<open>
  Claim C2, amended. When validation passes, the object-mode and decimation steps succeed
  and the two host calls that open the unwrap step succeed, an unwrap method other than
  the two recognised ones makes \<open>prepare_for_roblox\<close> return False and report the
  method. The state is the one the decimation step left, with the object active in EDIT
  mode: no unwrap operator and no later step has been applied. The geometry of the object
  is then what it was at the start, followed by the scale bake when \<open>apply_scale\<close> is set
  and the object is among the selected objects (the bake acts on the selection, not on
  the object as such), followed, when a ratio is given, by the application of the
  object's first modifier named \<open>Decimate\<close>: the new decimation with the given ratio,
  unless the object already carried a modifier of that name, which is then the one
  applied.
\<close>

theorem invalid_unwrap_method_fails_before_unwrap:
  assumes "validate cfg s = Inr (obj, rig)"
    and "uv_unwrap_method cfg \<noteq> ''SMART_PROJECT''"
    and "uv_unwrap_method cfg \<noteq> ''UNWRAP''"
    and "run_steps [object_mode_operations cfg obj, decimation cfg obj] s = (None, s1)"
    and "fails s1 (tick s1) = None"
    and "fails s1 (Suc (tick s1)) = None"
  shows "prepare_for_roblox cfg s =
    (False,
     s1\<lparr>active := Some obj, mode := EDIT, tick := tick s1 + 2,
        stdout := stdout s1 @ [''Error: Invalid uv_unwrap_method: '' @ uv_unwrap_method cfg]\<rparr>) \<and>
    (\<exists>ob. obj_at s obj = Some ob \<and>
       map_option geometry (obj_at (snd (prepare_for_roblox cfg s)) obj) =
         Some (geometry ob @
           (if apply_scale cfg \<and> obj \<in> selected s then [ScaleApplied] else []) @
           (case decimate_ratio cfg of
              None \<Rightarrow> []
            | Some r \<Rightarrow>
                (case find (\<lambda>m. mod_name m = ''Decimate'') (modifiers ob) of
                   None \<Rightarrow> [ModifierApplied ''DECIMATE'' r]
                 | Some m \<Rightarrow> [ModifierApplied (mod_type m) (ratio m)]))))"
proof -
  obtain s0 where p2: "object_mode_operations cfg obj s = (None, s0)"
    and p3: "decimation cfg obj s0 = (None, s1)"
    using assms(4) by (auto split: prod.splits option.splits)
  have uv: "uv_unwrapping cfg obj s1 =
     (Some (ValueError (''Invalid uv_unwrap_method: '' @ uv_unwrap_method cfg)),
      s1\<lparr>active := Some obj, mode := EDIT, tick := tick s1 + 2\<rparr>)"
    using assms(2,3,5,6)
    by (simp add: uv_unwrapping_def set_active_def mode_set_def mesh_select_all_def
        assign_def host_call_def raise_def)
  have res: "prepare_for_roblox cfg s =
    (False,
     s1\<lparr>active := Some obj, mode := EDIT, tick := tick s1 + 2,
        stdout := stdout s1 @ [''Error: Invalid uv_unwrap_method: '' @ uv_unwrap_method cfg]\<rparr>)"
    using assms(1) p2 p3 uv
    by (simp add: prepare_for_roblox_def try_body_def print_def)
  obtain ob where ob: "obj_at s obj = Some ob"
    using validate_object[OF assms(1)] by blast
  let ?ob0 = "if apply_scale cfg \<and> obj \<in> selected s
              then ob\<lparr>geometry := geometry ob @ [ScaleApplied]\<rparr> else ob"
  have a0: "active s0 = Some obj" and o0: "obj_at s0 obj = Some ?ob0"
    using object_mode_operations_object[OF p2, of obj] ob by simp_all
  have g1: "map_option geometry (obj_at s1 obj) =
     Some (geometry ?ob0 @
       (case decimate_ratio cfg of
          None \<Rightarrow> []
        | Some r \<Rightarrow>
            (case find (\<lambda>m. mod_name m = ''Decimate'') (modifiers ?ob0) of
               None \<Rightarrow> [ModifierApplied ''DECIMATE'' r]
             | Some m \<Rightarrow> [ModifierApplied (mod_type m) (ratio m)])))"
    by (rule decimation_object[OF p3 a0 o0])
  have same: "obj_at (snd (prepare_for_roblox cfg s)) obj = obj_at s1 obj"
    by (simp add: res obj_at_def)
  have m0: "modifiers ?ob0 = modifiers ob" "geometry ?ob0 =
      geometry ob @ (if apply_scale cfg \<and> obj \<in> selected s then [ScaleApplied] else [])"
    by simp_all
  show ?thesis
    using res ob g1 unfolding same m0 by simp
qed

theorem invalid_unwrap_method_fails_before_unwrap_witness:
  "validate (demo_config\<lparr>uv_unwrap_method := ''CUBE''\<rparr>) demo_state = Inr (0, 1) \<and>
   fst (run_steps [object_mode_operations (demo_config\<lparr>uv_unwrap_method := ''CUBE''\<rparr>) 0,
                   decimation (demo_config\<lparr>uv_unwrap_method := ''CUBE''\<rparr>) 0] demo_state) = None \<and>
   prepare_for_roblox (demo_config\<lparr>uv_unwrap_method := ''CUBE''\<rparr>) demo_state =
    (False,
     (snd (run_steps [object_mode_operations (demo_config\<lparr>uv_unwrap_method := ''CUBE''\<rparr>) 0,
                      decimation (demo_config\<lparr>uv_unwrap_method := ''CUBE''\<rparr>) 0] demo_state))
     \<lparr>active := Some 0, mode := EDIT,
       tick := tick (snd (run_steps
                 [object_mode_operations (demo_config\<lparr>uv_unwrap_method := ''CUBE''\<rparr>) 0,
                  decimation (demo_config\<lparr>uv_unwrap_method := ''CUBE''\<rparr>) 0] demo_state)) + 2,
       stdout := stdout (snd (run_steps
                 [object_mode_operations (demo_config\<lparr>uv_unwrap_method := ''CUBE''\<rparr>) 0,
                  decimation (demo_config\<lparr>uv_unwrap_method := ''CUBE''\<rparr>) 0] demo_state)) @
                 [''Error: Invalid uv_unwrap_method: CUBE'']\<rparr>) \<and>
   obj_at demo_state 0 = Some helmet \<and>
   map_option geometry
     (obj_at (snd (prepare_for_roblox (demo_config\<lparr>uv_unwrap_method := ''CUBE''\<rparr>) demo_state)) 0) =
     Some (geometry helmet @ [ScaleApplied] @ [ModifierApplied ''DECIMATE'' (1 / 2)])"
proof -
  let ?cfg = "demo_config\<lparr>uv_unwrap_method := ''CUBE''\<rparr>"
  let ?run = "run_steps [object_mode_operations ?cfg 0, decimation ?cfg 0] demo_state"
  have v: "validate ?cfg demo_state = Inr (0, 1)"
    by code_simp
  have m: "uv_unwrap_method ?cfg \<noteq> ''SMART_PROJECT''" "uv_unwrap_method ?cfg \<noteq> ''UNWRAP''"
    by simp_all
  have ok: "fst ?run = None"
    by code_simp
  then have r: "?run = (None, snd ?run)"
    by (simp add: prod_eq_iff)
  have f: "fails (snd ?run) (tick (snd ?run)) = None"
    "fails (snd ?run) (Suc (tick (snd ?run))) = None"
    by code_simp+
  have h: "obj_at demo_state 0 = Some helmet"
    by (simp add: obj_at_def demo_state_def)
  have c: "apply_scale ?cfg" "0 \<in> selected demo_state" "decimate_ratio ?cfg = Some (1 / 2)"
    "modifiers helmet = []"
    by (simp_all add: demo_config_def demo_state_def helmet_def)
  note main = invalid_unwrap_method_fails_before_unwrap[OF v m r f]
  have A: "prepare_for_roblox ?cfg demo_state =
    (False, (snd ?run)\<lparr>active := Some 0, mode := EDIT, tick := tick (snd ?run) + 2,
        stdout := stdout (snd ?run) @ [''Error: Invalid uv_unwrap_method: CUBE'']\<rparr>)"
    using main by (simp del: run_steps.simps)
  obtain ob where ob: "obj_at demo_state 0 = Some ob"
    and g: "map_option geometry (obj_at (snd (prepare_for_roblox ?cfg demo_state)) 0) =
         Some (geometry ob @
           (if apply_scale ?cfg \<and> 0 \<in> selected demo_state then [ScaleApplied] else []) @
           (case decimate_ratio ?cfg of
              None \<Rightarrow> []
            | Some r \<Rightarrow>
                (case find (\<lambda>m. mod_name m = ''Decimate'') (modifiers ob) of
                   None \<Rightarrow> [ModifierApplied ''DECIMATE'' r]
                 | Some m \<Rightarrow> [ModifierApplied (mod_type m) (ratio m)])))"
    using main by blast
  have "ob = helmet"
    using ob h by simp
  then have B: "map_option geometry (obj_at (snd (prepare_for_roblox ?cfg demo_state)) 0) =
     Some (geometry helmet @ [ScaleApplied] @ [ModifierApplied ''DECIMATE'' (1 / 2)])"
    using g c by simp
  show ?thesis
    using v ok A h B by (simp del: run_steps.simps)
qed








section \<open>Properties of the batch converter\<close>

lemma add_object_objects_only: "add_object ob s = s\<lparr>objects := objects (add_object ob s)\<rparr>"
  by (simp add: add_object_def)








end
